theory Spec2Isabelle
  imports Complex_Main
begin

section \<open>The compiler mediator: \<^verbatim>\<open>src/compiler/compiler.ts\<close>\<close>

text \<open>
  The class \<^verbatim>\<open>Compiler\<close> holds one mutable descriptor (\<^verbatim>\<open>this.configs\<close>), offers three
  setters and \<^verbatim>\<open>execute()\<close>, which resolves the toolchain, runs the compile phase and then
  the run phase, and reports to one observer. The model passes the descriptor explicitly,
  represents every observable by the list of signals it delivers, and threads a record of
  the effects on the outside world (processes started, errors nobody handled).
\<close>

subsection \<open>JavaScript values\<close>

text \<open>
  A JavaScript \<^verbatim>\<open>number\<close> is a finite value, an infinity or NaN. The finite values are
  modelled by rationals (every finite double is one; negative zero is \<open>0\<close>).
\<close>

datatype number = Num rat | NaN | PosInfinity | NegInfinity

text \<open>Truthiness, as the conditional operator and \<^verbatim>\<open>if\<close> test it.\<close>

fun truthy_number :: "number option \<Rightarrow> bool" where
  "truthy_number None = False"
| "truthy_number (Some (Num r)) = (r \<noteq> 0)"
| "truthy_number (Some NaN) = False"
| "truthy_number (Some PosInfinity) = True"
| "truthy_number (Some NegInfinity) = True"

fun truthy_string :: "string option \<Rightarrow> bool" where
  "truthy_string None = False"
| "truthy_string (Some s) = (s \<noteq> [])"

text \<open>
  \<^verbatim>\<open>String.prototype.trim\<close> removes white space and line terminators from both ends.
  Strings are lists of 8-bit characters here, so the code units modelled are those up to
  U+00FF; among them the white space of ECMAScript is TAB, LF, VT, FF, CR, SP and NBSP.
\<close>

definition isWhiteSpace :: "char \<Rightarrow> bool" where
  "isWhiteSpace c \<longleftrightarrow>
     c \<in> set [CHR 0x09, CHR 0x0A, CHR 0x0B, CHR 0x0C, CHR 0x0D, CHR 0x20, CHR 0xA0]"

definition trim :: "string \<Rightarrow> string" where
  "trim s = rev (dropWhile isWhiteSpace (rev (dropWhile isWhiteSpace s)))"

text \<open>
  \<^verbatim>\<open>value.toString()\<close> for \<^verbatim>\<open>string | number | boolean\<close>. A string is itself, a boolean is
  \<^verbatim>\<open>true\<close> or \<^verbatim>\<open>false\<close>. \<^verbatim>\<open>Number.prototype.toString\<close> prints the shortest digits that read back as the same
  double. For an integer of magnitude below \<open>2\<^sup>5\<^sup>3\<close> these are its decimal digits: every
  such integer is a double, and no other integer is rounded to it. What is printed for any
  other finite number (zeros in place of the low digits of a larger integer, a fraction,
  an exponent) is left to the parameter \<open>fmt\<close>, over which every statement below is
  general.
\<close>

datatype jsvalue = StringValue string | NumberValue number | BooleanValue bool

definition digit :: "nat \<Rightarrow> char" where
  \<comment> \<open>Only ever applied to a number below ten.\<close>
  "digit d = ''0123456789'' ! d"

fun showNat :: "nat \<Rightarrow> string" where
  "showNat n = (if n < 10 then [digit n] else showNat (n div 10) @ [digit (n mod 10)])"

declare showNat.simps [simp del]

definition showInt :: "int \<Rightarrow> string" where
  "showInt i = (if i < 0 then CHR ''-'' # showNat (nat (- i)) else showNat (nat i))"

fun numberToString :: "(rat \<Rightarrow> string) \<Rightarrow> number \<Rightarrow> string" where
  "numberToString fmt (Num r) =
     (if r = of_int \<lfloor>r\<rfloor> \<and> \<bar>r\<bar> < 2 ^ 53 then showInt \<lfloor>r\<rfloor> else fmt r)"
| "numberToString fmt NaN = ''NaN''"
| "numberToString fmt PosInfinity = ''Infinity''"
| "numberToString fmt NegInfinity = ''-Infinity''"

fun toString :: "(rat \<Rightarrow> string) \<Rightarrow> jsvalue \<Rightarrow> string" where
  "toString fmt (StringValue s) = s"
| "toString fmt (NumberValue n) = numberToString fmt n"
| "toString fmt (BooleanValue b) = (if b then ''true'' else ''false'')"

text \<open>
  A \<^verbatim>\<open>Map<string, string>\<close> is an association list in insertion order with distinct keys;
  \<^verbatim>\<open>Map.prototype.set\<close> replaces the value of a key that is present, in place, and appends
  the entry otherwise.
\<close>

type_synonym variables = "(string \<times> string) list"

fun Map_set :: "string \<Rightarrow> string \<Rightarrow> variables \<Rightarrow> variables" where
  "Map_set k v [] = [(k, v)]"
| "Map_set k v ((k', v') # m) = (if k' = k then (k, v) # m else (k', v') # Map_set k v m)"

definition Map_get :: "variables \<Rightarrow> string \<Rightarrow> string option" where
  "Map_get m k = map_of m k"

definition Map_keys :: "variables \<Rightarrow> string list" where
  "Map_keys m = map fst m"

subsection \<open>The descriptor and the result\<close>

text \<open>
  \<^verbatim>\<open>ICompilerConfigs\<close> is declared outside this file; these are the fields the class reads
  and writes. An optional field that is \<^verbatim>\<open>undefined\<close> is \<open>None\<close>.
\<close>

record ICompilerConfigs =
  compilerName :: string
  filePath :: "string option"
  executionTimeout :: "number option"
  compileCommand :: "string option"
  runCommand :: "string option"
  variables :: variables
  inputs :: "string list"

record ICompilerOutput =
  returnCode :: "number option"
  data :: "string option"
  took :: "number option"

text \<open>The toolchain descriptor that the loader delivers (typed \<^verbatim>\<open>any\<close> in the source).\<close>

record toolchain =
  toolchain_filePath :: "string option"
  toolchain_executionTimeout :: "number option"
  toolchain_compileCommand :: "string option"
  toolchain_runCommand :: "string option"

datatype error = CompilationError string | LoaderError string

datatype 'a signal = Next 'a | Error error | Complete

text \<open>
  An observer handed to \<^verbatim>\<open>Observable.create\<close> is an RxJS subscriber: once it has received
  \<^verbatim>\<open>error\<close> or \<^verbatim>\<open>complete\<close> it is stopped and drops every later signal.
\<close>

fun subscriber :: "'a signal list \<Rightarrow> 'a signal list" where
  "subscriber [] = []"
| "subscriber (Next x # ss) = Next x # subscriber ss"
| "subscriber (Error e # ss) = [Error e]"
| "subscriber (Complete # ss) = [Complete]"

subsection \<open>The collaborators\<close>

text \<open>
  \<^verbatim>\<open>ProcessWrapper\<close>, \<^verbatim>\<open>CommandBuilder\<close> and \<^verbatim>\<open>CompilerLoader\<close> are not part of this file.
  Each construction of a \<^verbatim>\<open>ProcessWrapper\<close> is recorded as an invocation: the command, the
  two options, and the lines given to \<^verbatim>\<open>writeInput\<close> (none when it is not called).
\<close>

record invocation =
  command :: string
  currentDirectory :: "string option"
  timeoutOption :: "number option"
  written :: "string list"

datatype chunk = Output string | ErrorOutput string

fun chunk_text :: "chunk \<Rightarrow> string" where
  "chunk_text (Output s) = s"
| "chunk_text (ErrorOutput s) = s"

text \<open>
  What a started process does: either \<^verbatim>\<open>onFinish\<close> fires, after the given chunks have
  arrived on \<^verbatim>\<open>onOutput\<close> and \<^verbatim>\<open>onError\<close> in this order, with a return code and with
  \<^verbatim>\<open>process.hrtime(started)\<close> reading \<open>(seconds, nanoseconds)\<close> at that moment, the
  nanoseconds below \<open>10\<^sup>9\<close>; or \<^verbatim>\<open>onFinish\<close> never fires.
\<close>

datatype behaviour = Finish "chunk list" "number option" "nat \<times> nat" | NoFinish

datatype load_outcome = Loaded toolchain | LoadFailed error

text \<open>
  The environment of one \<^verbatim>\<open>Compiler\<close>: the loader's answer for a compiler name, the
  behaviour of the \<open>n\<close>-th process started, and the command builder. A \<^verbatim>\<open>CommandBuilder\<close>
  is created with a template and receives calls of \<^verbatim>\<open>putVariables\<close>; what
  \<^verbatim>\<open>buildCommand()\<close> returns is a function of the template and of these calls in order.
\<close>

record env =
  getCompiler :: "string \<Rightarrow> load_outcome"
  process :: "nat \<Rightarrow> invocation \<Rightarrow> behaviour"
  buildCommand :: "string \<Rightarrow> variables list \<Rightarrow> string"

text \<open>
  The effects outside the class: the processes started so far, and the errors that reached
  a subscription without an error callback (RxJS reports those to the host; they are
  delivered to no observer).
\<close>

record world =
  spawned :: "invocation list"
  unhandled :: "error list"

subsection \<open>The setters\<close>

definition executionTimeout_set :: "number \<Rightarrow> ICompilerConfigs \<Rightarrow> ICompilerConfigs" where
  "executionTimeout_set v cfg = cfg\<lparr>executionTimeout := Some v\<rparr>"

definition putVariable ::
  "(rat \<Rightarrow> string) \<Rightarrow> string \<Rightarrow> jsvalue \<Rightarrow> ICompilerConfigs \<Rightarrow> ICompilerConfigs" where
  "putVariable fmt name v cfg =
     (if length (trim name) > 0
      then cfg\<lparr>variables := Map_set (trim name) (toString fmt v) (variables cfg)\<rparr>
      else cfg)"

definition onInputRequested :: "string list \<Rightarrow> ICompilerConfigs \<Rightarrow> ICompilerConfigs" where
  "onInputRequested ins cfg = cfg\<lparr>inputs := ins\<rparr>"

subsection \<open>Toolchain resolution\<close>

definition configureDefaultOptions :: "ICompilerConfigs \<Rightarrow> ICompilerConfigs" where
  "configureDefaultOptions cfg =
     cfg\<lparr>filePath := (if truthy_string (filePath cfg) then filePath cfg else Some ''./'')\<rparr>"

definition optionsParser :: "toolchain \<Rightarrow> ICompilerConfigs \<Rightarrow> ICompilerConfigs" where
  "optionsParser compiler cfg =
     cfg\<lparr>filePath := toolchain_filePath compiler,
         executionTimeout :=
           (if truthy_number (executionTimeout cfg) then executionTimeout cfg
            else toolchain_executionTimeout compiler),
         compileCommand := toolchain_compileCommand compiler,
         runCommand := toolchain_runCommand compiler\<rparr>"

subsection \<open>Running a process\<close>

definition configureCommand :: "env \<Rightarrow> ICompilerConfigs \<Rightarrow> string \<Rightarrow> string" where
  "configureCommand E cfg cmd = buildCommand E cmd [variables cfg, variables cfg]"

text \<open>
  \<^verbatim>\<open>took[1] / 1000000\<close>: the second component of the pair that \<^verbatim>\<open>process.hrtime(started)\<close>
  returns, divided by a million.
\<close>

definition took_of :: "nat \<times> nat \<Rightarrow> number" where
  "took_of t = Num (of_nat (snd t) / 1000000)"

text \<open>
  \<^verbatim>\<open>run(...inputs)\<close>. The signals are listed in the order in which the body sends them to
  its observer: the error of the missing run command first, which does not leave the
  function, then what the \<^verbatim>\<open>onFinish\<close> callback sends.
\<close>

definition run ::
  "env \<Rightarrow> ICompilerConfigs \<Rightarrow> string list \<Rightarrow> world \<Rightarrow> ICompilerOutput signal list \<times> world" where
  "run E cfg ins w =
     (let early = (if truthy_string (runCommand cfg) then []
                   else [Error (CompilationError ''runCommand not found.'')]);
          cmd = (case runCommand cfg of
                   Some rc \<Rightarrow> if rc \<noteq> [] then configureCommand E cfg rc else []
                 | None \<Rightarrow> []);
          proc = \<lparr>command = cmd, currentDirectory = filePath cfg,
                  timeoutOption = executionTimeout cfg, written = ins\<rparr>;
          late = (case process E (length (spawned w)) proc of
                    Finish chunks rc t \<Rightarrow>
                      [Next \<lparr>returnCode = rc,
                             data = Some (concat (map chunk_text chunks)),
                             took = Some (took_of t)\<rparr>,
                       Complete]
                  | NoFinish \<Rightarrow> [])
      in (subscriber (early @ late), w\<lparr>spawned := spawned w @ [proc]\<rparr>))"

subsection \<open>The two phases\<close>

text \<open>The callbacks with which \<^verbatim>\<open>compile()\<close> and the run phase subscribe to \<^verbatim>\<open>run\<close>.\<close>

fun forward :: "'a signal \<Rightarrow> 'a signal list" where
  "forward (Next x) = [Next x, Complete]"
| "forward (Error e) = [Error e]"
| "forward Complete = []"

definition SUCCESS_CODE :: number where
  "SUCCESS_CODE = Num 0"

definition compile ::
  "env \<Rightarrow> ICompilerConfigs \<Rightarrow> world \<Rightarrow> ICompilerOutput signal list \<times> world" where
  "compile E cfg w =
     (case compileCommand cfg of
        Some cc \<Rightarrow>
          if cc \<noteq> [] then
            (let (sigs, w') = run E cfg [cc] w
             in (subscriber (concat (map forward sigs)), w'))
          else ([Next \<lparr>returnCode = Some SUCCESS_CODE, data = None, took = None\<rparr>, Complete], w)
      | None \<Rightarrow> ([Next \<lparr>returnCode = Some SUCCESS_CODE, data = None, took = None\<rparr>, Complete], w))"

text \<open>The four branches of the callback in \<^verbatim>\<open>compileAndRun\<close>, in the order of the source.\<close>

datatype branch = RunPhase | MissingRunCommand | Passthrough | Guard

definition dispatch :: "ICompilerOutput \<Rightarrow> ICompilerConfigs \<Rightarrow> branch" where
  "dispatch compileOutput cfg =
     (if returnCode compileOutput = Some SUCCESS_CODE \<and> truthy_string (runCommand cfg)
      then RunPhase
      else if \<not> truthy_string (runCommand cfg) then MissingRunCommand
      else if returnCode compileOutput \<noteq> Some (Num 0) then Passthrough
      else Guard)"

text \<open>
  One signal of \<^verbatim>\<open>compile()\<close> arriving at the subscription of \<^verbatim>\<open>compileAndRun\<close>, which has
  a \<^verbatim>\<open>next\<close> callback only. The state is what the outer observer has been sent so far and
  the world.
\<close>

fun onCompile ::
  "env \<Rightarrow> ICompilerConfigs \<Rightarrow> ICompilerOutput signal list \<times> world \<Rightarrow> ICompilerOutput signal
     \<Rightarrow> ICompilerOutput signal list \<times> world" where
  "onCompile E cfg (sent, w) (Next compileOutput) =
     (case dispatch compileOutput cfg of
        RunPhase \<Rightarrow>
          (let (sigs, w') = run E cfg (inputs cfg) w
           in (sent @ concat (map forward sigs), w'))
      | MissingRunCommand \<Rightarrow> (sent @ [Error (CompilationError ''runCommand not found.'')], w)
      | Passthrough \<Rightarrow> (sent @ [Next compileOutput, Complete], w)
      | Guard \<Rightarrow> (sent @ [Error (CompilationError ''Failed to compile.'')], w))"
| "onCompile E cfg (sent, w) (Error e) = (sent, w\<lparr>unhandled := unhandled w @ [e]\<rparr>)"
| "onCompile E cfg (sent, w) Complete = (sent, w)"

definition compileAndRun ::
  "env \<Rightarrow> ICompilerConfigs \<Rightarrow> world \<Rightarrow> ICompilerOutput signal list \<times> world" where
  "compileAndRun E cfg w =
     (let (sigs, w') = compile E cfg w
      in foldl (onCompile E cfg) ([], w') sigs)"

text \<open>
  \<^verbatim>\<open>execute()\<close>: what the subscriber of the returned observable receives, the descriptor as
  the call leaves it, and the world.
\<close>

definition execute ::
  "env \<Rightarrow> ICompilerConfigs \<Rightarrow> world
     \<Rightarrow> ICompilerOutput signal list \<times> ICompilerConfigs \<times> world" where
  "execute E cfg w =
     (let cfg1 = configureDefaultOptions cfg
      in case getCompiler E (compilerName cfg1) of
           Loaded compiler \<Rightarrow>
             (let cfg2 = optionsParser compiler cfg1;
                  (sigs, w') = compileAndRun E cfg2 w
              in (subscriber sigs, cfg2, w'))
         | LoadFailed e \<Rightarrow> (subscriber [Error e], cfg1, w))"

subsection \<open>The command template engine\<close>

text \<open>
  Modelled from the spec: the class \<^verbatim>\<open>CommandBuilder\<close> (the CommandTemplate Engine) is not
  part of this file. The specification describes it so: the template is scanned for
  placeholders \<^verbatim>\<open>{name}\<close>; a placeholder whose name is among the variables is replaced by
  the value, any other is left as it stands; nothing that was substituted is scanned again.
  \<open>scan\<close> reads the template once, holding the name read so far while inside a placeholder.
  It serves as the builder of the sample environments below; the general statements hold
  for every builder.
\<close>

fun scan :: "variables \<Rightarrow> string option \<Rightarrow> string \<Rightarrow> string" where
  "scan V None [] = []"
| "scan V (Some name) [] = CHR ''{'' # name"
| "scan V None (c # cs) = (if c = CHR ''{'' then scan V (Some []) cs else c # scan V None cs)"
| "scan V (Some name) (c # cs) =
     (if c = CHR ''}'' then
        (case map_of V name of Some v \<Rightarrow> v | None \<Rightarrow> CHR ''{'' # name @ ''}'') @ scan V None cs
      else if c = CHR ''{'' then CHR ''{'' # name @ scan V (Some []) cs
      else scan V (Some (name @ [c])) cs)"

definition putVariables :: "variables \<Rightarrow> variables \<Rightarrow> variables" where
  \<comment> \<open>Modelled from the spec: the builder takes over every entry of the map it is given.\<close>
  "putVariables vs m = foldl (\<lambda>m (k, v). Map_set k v m) m vs"

definition spec_buildCommand :: "string \<Rightarrow> variables list \<Rightarrow> string" where
  \<comment> \<open>Modelled from the spec: substitution of the variables put so far into the template.\<close>
  "spec_buildCommand template calls =
     scan (foldl (\<lambda>m vs. putVariables vs m) [] calls) None template"

subsection \<open>Invariants and sample data\<close>

text \<open>Every key of the variables map is trimmed and not empty.\<close>

definition keys_trimmed :: "variables \<Rightarrow> bool" where
  "keys_trimmed m \<longleftrightarrow> (\<forall>k \<in> set (Map_keys m). trim k = k \<and> k \<noteq> [])"

text \<open>A sequence of \<^verbatim>\<open>putVariable\<close> calls, first to last.\<close>

definition putVariable_calls ::
  "(rat \<Rightarrow> string) \<Rightarrow> (string \<times> jsvalue) list \<Rightarrow> ICompilerConfigs \<Rightarrow> ICompilerConfigs" where
  "putVariable_calls fmt calls cfg = foldl (\<lambda>c (n, v). putVariable fmt n v c) cfg calls"

text \<open>A descriptor as a constructor may leave it: a compiler name, nothing else set.\<close>

definition fresh :: ICompilerConfigs where
  "fresh = \<lparr>compilerName = ''lang'', filePath = None, executionTimeout = None,
            compileCommand = None, runCommand = None, variables = [], inputs = []\<rparr>"

text \<open>Nothing started, nothing unhandled.\<close>

definition idle :: world where
  "idle = \<lparr>spawned = [], unhandled = []\<rparr>"

text \<open>
  A compiled language, the same toolchain without a compile step, and the same without a
  run command.
\<close>

definition sample_toolchain :: toolchain where
  "sample_toolchain =
     \<lparr>toolchain_filePath = Some ''/tmp/job'', toolchain_executionTimeout = Some (Num 5000),
      toolchain_compileCommand = Some ''cc {file} -o out'',
      toolchain_runCommand = Some ''./{exe}''\<rparr>"

definition interpreted_toolchain :: toolchain where
  "interpreted_toolchain = sample_toolchain\<lparr>toolchain_compileCommand := None\<rparr>"

definition no_run_toolchain :: toolchain where
  "no_run_toolchain = sample_toolchain\<lparr>toolchain_runCommand := None\<rparr>"

definition sample_configs :: ICompilerConfigs where
  "sample_configs =
     fresh\<lparr>variables := [(''file'', ''main.c''), (''exe'', ''out'')], inputs := [''5'', ''6'']\<rparr>"

text \<open>The sample descriptor after toolchain resolution, as \<^verbatim>\<open>execute()\<close> performs it.\<close>

definition resolved :: "toolchain \<Rightarrow> ICompilerConfigs" where
  "resolved compiler = optionsParser compiler (configureDefaultOptions sample_configs)"

text \<open>
  Two processes: one that prints a diagnostic and exits with code 1 after 120 ms, one that
  prints 42 and exits with code 0 after 2.5 s.
\<close>

definition syntax_error :: behaviour where
  "syntax_error =
     Finish [Output ''main.c:1: '', ErrorOutput ''syntax error''] (Some (Num 1)) (0, 120000000)"

definition slow_success :: behaviour where
  "slow_success = Finish [Output ''42''] (Some (Num 0)) (2, 500000000)"

text \<open>
  The environment in which the loader delivers the given toolchain and every process
  started behaves in the given way.
\<close>

definition env_of :: "toolchain \<Rightarrow> behaviour \<Rightarrow> env" where
  "env_of compiler b =
     \<lparr>getCompiler = (\<lambda>name. Loaded compiler), process = (\<lambda>n proc. b),
      buildCommand = spec_buildCommand\<rparr>"

text \<open>
  The duration that a reading \<open>(seconds, nanoseconds)\<close> of \<^verbatim>\<open>process.hrtime(started)\<close>
  stands for, in milliseconds.
\<close>

definition elapsed_ms :: "nat \<times> nat \<Rightarrow> rat" where
  "elapsed_ms t = of_nat (fst t) * 1000 + of_nat (snd t) / 1000000"

section \<open>Properties\<close>

subsection \<open>Trimming and the variables map\<close>

lemma trim_Nil: "trim [] = []"
  by (simp add: trim_def)

lemma trim_ends:
  "trim s = [] \<or> (\<not> isWhiteSpace (hd (trim s)) \<and> \<not> isWhiteSpace (last (trim s)))"
proof (cases "trim s = []")
  case True
  then show ?thesis by simp
next
  case False
  let ?a = "dropWhile isWhiteSpace s"
  let ?b = "dropWhile isWhiteSpace (rev ?a)"
  have t: "trim s = rev ?b" by (simp add: trim_def)
  from False t have bne: "?b \<noteq> []" by simp
  then have hb: "\<not> isWhiteSpace (hd ?b)" by (rule hd_dropWhile)
  have ane: "?a \<noteq> []"
  proof
    assume a: "?a = []"
    have "?b = []" unfolding a by simp
    with bne show False by simp
  qed
  then have ha: "\<not> isWhiteSpace (hd ?a)" by (rule hd_dropWhile)
  have "last (trim s) = hd ?b" using bne t by (simp add: last_rev)
  moreover have "hd (trim s) = last ?b" using bne t by (simp add: hd_rev)
  moreover have "last ?b = last (rev ?a)"
    using bne by (metis last_appendR takeWhile_dropWhile_id)
  moreover have "last (rev ?a) = hd ?a" using ane by (simp add: last_rev)
  ultimately show ?thesis using ha hb by simp
qed

lemma dropWhile_unchanged: "xs \<noteq> [] \<Longrightarrow> \<not> P (hd xs) \<Longrightarrow> dropWhile P xs = xs"
  by (cases xs) auto

lemma trim_trim: "trim (trim s) = trim s"
proof (cases "trim s = []")
  case True
  with trim_Nil show ?thesis by simp
next
  case False
  with trim_ends [of s]
  have h: "\<not> isWhiteSpace (hd (trim s))" and l: "\<not> isWhiteSpace (last (trim s))"
    by auto
  have front: "dropWhile isWhiteSpace (trim s) = trim s"
    using False h by (rule dropWhile_unchanged)
  have "rev (trim s) \<noteq> []" using False by simp
  moreover have "\<not> isWhiteSpace (hd (rev (trim s)))" using False l by (simp add: hd_rev)
  ultimately have rear: "dropWhile isWhiteSpace (rev (trim s)) = rev (trim s)"
    by (rule dropWhile_unchanged)
  show ?thesis unfolding trim_def [of "trim s"] front rear by simp
qed

lemma map_of_Map_set: "map_of (Map_set k v m) = (map_of m)(k \<mapsto> v)"
  by (induction m) (auto simp: fun_eq_iff)

lemma keys_Map_set:
  "map fst (Map_set k v m) = (if k \<in> set (map fst m) then map fst m else map fst m @ [k])"
proof (induction m)
  case Nil
  show ?case by simp
next
  case (Cons e m)
  obtain k' v' where e: "e = (k', v')" by (cases e)
  show ?case
  proof (cases "k' = k")
    case True
    with e show ?thesis by simp
  next
    case False
    with e Cons.IH show ?thesis by simp
  qed
qed

lemma key_set_Map_set: "fst ` set (Map_set k v m) = insert k (fst ` set m)"
proof -
  have "set (map fst (Map_set k v m)) = insert k (set (map fst m))"
    unfolding keys_Map_set by (simp add: insert_absorb)
  then show ?thesis by simp
qed

lemma distinct_Map_set: "distinct (map fst m) \<Longrightarrow> distinct (map fst (Map_set k v m))"
  by (simp add: keys_Map_set)

lemma Map_set_single_entry:
  "distinct (map fst m) \<Longrightarrow> filter (\<lambda>e. fst e = k) (Map_set k v m) = [(k, v)]"
proof (induction m)
  case Nil
  then show ?case by simp
next
  case (Cons e m)
  obtain k' v' where e: "e = (k', v')" by (cases e)
  show ?case
  proof (cases "k' = k")
    case True
    with Cons.prems e have "k \<notin> fst ` set m" by auto
    then have "filter (\<lambda>e. fst e = k) m = []" by (auto simp: filter_empty_conv)
    with True e show ?thesis by simp
  next
    case False
    with Cons e show ?thesis by simp
  qed
qed

lemma putVariable_distinct:
  "distinct (Map_keys (variables cfg))
     \<Longrightarrow> distinct (Map_keys (variables (putVariable fmt n v cfg)))"
  by (simp add: putVariable_def Map_keys_def distinct_Map_set)

lemma putVariable_keys_trimmed:
  "keys_trimmed (variables cfg) \<Longrightarrow> keys_trimmed (variables (putVariable fmt n v cfg))"
  unfolding keys_trimmed_def
proof
  assume inv: "\<forall>k \<in> set (Map_keys (variables cfg)). trim k = k \<and> k \<noteq> []"
  fix k
  assume "k \<in> set (Map_keys (variables (putVariable fmt n v cfg)))"
  then have "(k = trim n \<and> trim n \<noteq> []) \<or> k \<in> set (Map_keys (variables cfg))"
    by (simp add: putVariable_def Map_keys_def key_set_Map_set split: if_splits)
  then show "trim k = k \<and> k \<noteq> []"
    using inv by (auto simp: trim_trim)
qed

lemma putVariable_calls_distinct:
  "distinct (Map_keys (variables cfg))
     \<Longrightarrow> distinct (Map_keys (variables (putVariable_calls fmt calls cfg)))"
  unfolding putVariable_calls_def
  by (induction calls arbitrary: cfg) (auto simp: putVariable_distinct)

lemma putVariable_calls_keys_trimmed:
  "keys_trimmed (variables cfg)
     \<Longrightarrow> keys_trimmed (variables (putVariable_calls fmt calls cfg))"
  unfolding putVariable_calls_def
  by (induction calls arbitrary: cfg) (auto simp: putVariable_keys_trimmed)

lemma trim_blank: "trim ''  '' = []"
  by (simp add: trim_def isWhiteSpace_def)

lemma trim_n: "trim '' n '' = ''n''"
  by (simp add: trim_def isWhiteSpace_def)

subsection \<open>\<^verbatim>\<open>putVariable\<close>\<close>

text \<open>
  The digits of a number are fixed by the model only where they are the plain decimal
  digits; \<open>2\<^sup>6\<^sup>0\<close>, which JavaScript prints with zeros for its low digits, is left to
  \<open>fmt\<close>.
\<close>

lemma numberToString_small: "numberToString fmt (Num 5) = ''5''"
  by (simp add: showInt_def showNat.simps digit_def)

lemma numberToString_large:
  "numberToString fmt (Num 1152921504606846976) = fmt 1152921504606846976"
  by simp

text \<open>
  C9. \<^verbatim>\<open>putVariable\<close> leaves the descriptor as it is when the trimmed name is empty.
  Otherwise it changes the variables map only, by \<^verbatim>\<open>set\<close> of the trimmed name to the
  stringified value: looking the trimmed name up gives that string, and every other key
  reads as before. The witness is the pair of examples of the specification:
  \<^verbatim>\<open>putVariable("  ", "x")\<close> changes nothing, and \<^verbatim>\<open>putVariable(" n ", 5)\<close> on an empty map
  leaves the single entry \<^verbatim>\<open>n\<close> with value \<^verbatim>\<open>5\<close>.
\<close>

theorem putVariable_stores_trimmed:
  "(trim name = [] \<longrightarrow> putVariable fmt name v cfg = cfg) \<and>
   (trim name \<noteq> [] \<longrightarrow>
      putVariable fmt name v cfg =
        cfg\<lparr>variables := Map_set (trim name) (toString fmt v) (variables cfg)\<rparr> \<and>
      Map_get (variables (putVariable fmt name v cfg)) (trim name) = Some (toString fmt v) \<and>
      (\<forall>k. k \<noteq> trim name \<longrightarrow>
         Map_get (variables (putVariable fmt name v cfg)) k = Map_get (variables cfg) k))"
  by (simp add: putVariable_def Map_get_def map_of_Map_set)

theorem putVariable_stores_trimmed_witness:
  "trim ''  '' = [] \<and> putVariable (\<lambda>r. []) ''  '' (StringValue ''x'') fresh = fresh \<and>
   trim '' n '' \<noteq> [] \<and>
   variables (putVariable (\<lambda>r. []) '' n '' (NumberValue (Num 5)) fresh) = [(''n'', ''5'')] \<and>
   Map_get (variables (putVariable (\<lambda>r. []) '' n '' (NumberValue (Num 5)) fresh)) ''n''
     = Some ''5''"
  using putVariable_stores_trimmed [of "''  ''" "\<lambda>r. []" "StringValue ''x''" fresh]
    putVariable_stores_trimmed [of "'' n ''" "\<lambda>r. []" "NumberValue (Num 5)" fresh]
  by (simp add: trim_blank trim_n fresh_def Map_get_def showInt_def showNat.simps digit_def)

text \<open>
  C10. Take two calls of \<^verbatim>\<open>putVariable\<close> whose names trim to the same non-empty string,
  with any calls between them, on a map with distinct keys (which a \<^verbatim>\<open>Map\<close> has).
  Afterwards the map has exactly one entry under the trimmed name, its value is the
  stringified value of the later call, and if every key was trimmed and non-empty before
  the calls, every key is so after them.
\<close>

theorem putVariable_last_write_wins:
  assumes "distinct (Map_keys (variables cfg))"
    and "trim n1 = trim n2"
    and "trim n2 \<noteq> []"
  shows "filter (\<lambda>e. fst e = trim n2)
           (variables (putVariable fmt n2 v2
              (putVariable_calls fmt between (putVariable fmt n1 v1 cfg))))
           = [(trim n2, toString fmt v2)] \<and>
         Map_get (variables (putVariable fmt n2 v2
              (putVariable_calls fmt between (putVariable fmt n1 v1 cfg)))) (trim n2)
           = Some (toString fmt v2) \<and>
         (keys_trimmed (variables cfg) \<longrightarrow>
            keys_trimmed (variables (putVariable fmt n2 v2
              (putVariable_calls fmt between (putVariable fmt n1 v1 cfg)))))"
proof -
  let ?mid = "putVariable_calls fmt between (putVariable fmt n1 v1 cfg)"
  have d: "distinct (map fst (variables ?mid))"
    using assms(1) putVariable_calls_distinct [of "putVariable fmt n1 v1 cfg" fmt between]
      putVariable_distinct [of cfg fmt n1 v1]
    by (simp add: Map_keys_def)
  have one: "filter (\<lambda>e. fst e = trim n2) (variables (putVariable fmt n2 v2 ?mid))
         = [(trim n2, toString fmt v2)]"
    using assms(3) d by (simp add: putVariable_def Map_set_single_entry)
  have val: "Map_get (variables (putVariable fmt n2 v2 ?mid)) (trim n2)
         = Some (toString fmt v2)"
    using assms(3) by (simp add: putVariable_def Map_get_def map_of_Map_set)
  have inv: "keys_trimmed (variables (putVariable fmt n2 v2 ?mid))"
    if "keys_trimmed (variables cfg)"
    using that by (intro putVariable_keys_trimmed putVariable_calls_keys_trimmed)
  from one val inv show ?thesis by blast
qed

theorem putVariable_last_write_wins_witness:
  "distinct (Map_keys (variables fresh)) \<and> trim '' n '' = trim ''n  '' \<and> trim ''n  '' \<noteq> [] \<and>
   keys_trimmed (variables fresh) \<and>
   filter (\<lambda>e. fst e = ''n'')
     (variables (putVariable (\<lambda>r. []) ''n  '' (StringValue ''six'')
        (putVariable_calls (\<lambda>r. []) [(''m'', BooleanValue True)]
           (putVariable (\<lambda>r. []) '' n '' (NumberValue (Num 5)) fresh))))
     = [(''n'', ''six'')] \<and>
   keys_trimmed (variables (putVariable (\<lambda>r. []) ''n  '' (StringValue ''six'')
        (putVariable_calls (\<lambda>r. []) [(''m'', BooleanValue True)]
           (putVariable (\<lambda>r. []) '' n '' (NumberValue (Num 5)) fresh))))"
proof -
  have t: "trim ''n  '' = ''n''" by (simp add: trim_def isWhiteSpace_def)
  have h1: "distinct (Map_keys (variables fresh))" by (simp add: fresh_def Map_keys_def)
  have h2: "trim '' n '' = trim ''n  ''" by (simp add: t trim_n)
  have h3: "trim ''n  '' \<noteq> []" by (simp add: t)
  have h4: "keys_trimmed (variables fresh)" by (simp add: fresh_def keys_trimmed_def Map_keys_def)
  show ?thesis
    using h1 h2 h3 h4
      putVariable_last_write_wins [OF h1 h2 h3, of "\<lambda>r. []" "StringValue ''six''"
        "[(''m'', BooleanValue True)]" "NumberValue (Num 5)"]
    by (simp add: t)
qed

subsection \<open>Toolchain resolution\<close>

text \<open>
  C5, as it is stated, fails: a timeout that the user set to 0 is not kept. The test of
  \<^verbatim>\<open>optionsParser\<close> is the truthiness of the current value, and 0 is falsy, so the default
  of the toolchain (5000 here) replaces it.
\<close>

theorem timeout_zero_overwritten:
  "executionTimeout (executionTimeout_set (Num 0) sample_configs) = Some (Num 0) \<and>
   executionTimeout (optionsParser sample_toolchain
       (configureDefaultOptions (executionTimeout_set (Num 0) sample_configs)))
     = Some (Num 5000)"
  by (simp add: optionsParser_def configureDefaultOptions_def executionTimeout_set_def
      sample_toolchain_def)

text \<open>
  C5, amended. Toolchain resolution always overwrites the working directory and the compile
  and run command templates with the values of the toolchain. It keeps the timeout of the
  descriptor when that is set to a value other than 0 and NaN, and overwrites it with the
  default of the toolchain when it is unset, 0 or NaN.
\<close>

theorem optionsParser_merge:
  "filePath (optionsParser compiler cfg) = toolchain_filePath compiler \<and>
   compileCommand (optionsParser compiler cfg) = toolchain_compileCommand compiler \<and>
   runCommand (optionsParser compiler cfg) = toolchain_runCommand compiler \<and>
   (executionTimeout cfg \<notin> {None, Some (Num 0), Some NaN} \<longrightarrow>
      executionTimeout (optionsParser compiler cfg) = executionTimeout cfg) \<and>
   (executionTimeout cfg \<in> {None, Some (Num 0), Some NaN} \<longrightarrow>
      executionTimeout (optionsParser compiler cfg) = toolchain_executionTimeout compiler)"
proof -
  have "truthy_number t \<longleftrightarrow> t \<notin> {None, Some (Num 0), Some NaN}" for t
    by (cases t rule: truthy_number.cases) auto
  then show ?thesis by (simp add: optionsParser_def)
qed

theorem optionsParser_merge_witness:
  "executionTimeout (executionTimeout_set (Num 250) sample_configs)
     \<notin> {None, Some (Num 0), Some NaN} \<and>
   executionTimeout (optionsParser sample_toolchain (executionTimeout_set (Num 250) sample_configs))
     = Some (Num 250) \<and>
   executionTimeout sample_configs \<in> {None, Some (Num 0), Some NaN} \<and>
   executionTimeout (optionsParser sample_toolchain sample_configs) = Some (Num 5000) \<and>
   runCommand (optionsParser sample_toolchain sample_configs) = Some ''./{exe}''"
  using optionsParser_merge [of sample_toolchain "executionTimeout_set (Num 250) sample_configs"]
    optionsParser_merge [of sample_toolchain sample_configs]
  by (simp add: executionTimeout_set_def sample_configs_def fresh_def sample_toolchain_def)

subsection \<open>What \<^verbatim>\<open>run\<close> and \<^verbatim>\<open>compile\<close> do, case by case\<close>

lemma run_with_command:
  assumes "runCommand cfg = Some rc" and "rc \<noteq> []"
    and "process E (length (spawned w))
           \<lparr>command = configureCommand E cfg rc, currentDirectory = filePath cfg,
            timeoutOption = executionTimeout cfg, written = ins\<rparr> = Finish chunks code t"
  shows "run E cfg ins w =
           ([Next \<lparr>returnCode = code, data = Some (concat (map chunk_text chunks)),
                   took = Some (took_of t)\<rparr>, Complete],
            w\<lparr>spawned := spawned w @
               [\<lparr>command = configureCommand E cfg rc, currentDirectory = filePath cfg,
                 timeoutOption = executionTimeout cfg, written = ins\<rparr>]\<rparr>)"
  using assms by (simp add: run_def)

lemma run_without_command:
  assumes "\<not> truthy_string (runCommand cfg)"
  shows "run E cfg ins w =
           ([Error (CompilationError ''runCommand not found.'')],
            w\<lparr>spawned := spawned w @
               [\<lparr>command = [], currentDirectory = filePath cfg,
                 timeoutOption = executionTimeout cfg, written = ins\<rparr>]\<rparr>)"
proof (cases "runCommand cfg")
  case None
  then show ?thesis by (simp add: run_def)
next
  case (Some rc)
  with assms have "rc = []" by simp
  with Some show ?thesis by (simp add: run_def)
qed

lemma compile_with_command:
  assumes "compileCommand cfg = Some cc" and "cc \<noteq> []"
  shows "compile E cfg w =
           (subscriber (concat (map forward (fst (run E cfg [cc] w)))), snd (run E cfg [cc] w))"
  using assms by (simp add: compile_def split_beta)

lemma compile_without_command:
  assumes "\<not> truthy_string (compileCommand cfg)"
  shows "compile E cfg w =
           ([Next \<lparr>returnCode = Some SUCCESS_CODE, data = None, took = None\<rparr>, Complete], w)"
proof (cases "compileCommand cfg")
  case None
  then show ?thesis by (simp add: compile_def)
next
  case (Some cc)
  with assms have "cc = []" by simp
  with Some show ?thesis by (simp add: compile_def)
qed

lemma subscriber_subset: "set (subscriber ss) \<subseteq> set ss"
  by (induction ss rule: subscriber.induct) auto

text \<open>The only error that \<^verbatim>\<open>run\<close> itself sends is the one of the missing run command.\<close>

lemma run_errors:
  assumes "Error e \<in> set (fst (run E cfg ins w))"
  shows "e = CompilationError ''runCommand not found.''"
proof -
  have "set (fst (run E cfg ins w)) \<subseteq>
          set ((if truthy_string (runCommand cfg) then []
                else [Error (CompilationError ''runCommand not found.'')]) @
               (case process E (length (spawned w))
                      \<lparr>command = (case runCommand cfg of
                                    Some rc \<Rightarrow> if rc \<noteq> [] then configureCommand E cfg rc else []
                                  | None \<Rightarrow> []),
                       currentDirectory = filePath cfg,
                       timeoutOption = executionTimeout cfg, written = ins\<rparr> of
                  Finish chunks rc t \<Rightarrow>
                    [Next \<lparr>returnCode = rc, data = Some (concat (map chunk_text chunks)),
                           took = Some (took_of t)\<rparr>, Complete]
                | NoFinish \<Rightarrow> []))"
    unfolding run_def Let_def fst_conv by (rule subscriber_subset)
  with assms show ?thesis
    by (auto split: if_splits behaviour.splits)
qed

lemma forward_errors: "Error e \<in> set (concat (map forward ss)) \<Longrightarrow> Error e \<in> set ss"
proof (induction ss)
  case Nil
  then show ?case by simp
next
  case (Cons s ss)
  then show ?case by (cases s) auto
qed

lemma onCompile_Complete: "onCompile E cfg st Complete = st"
  by (cases st) simp

lemma compileAndRun_Next:
  assumes "compile E cfg w = ([Next out, Complete], w1)"
  shows "compileAndRun E cfg w = onCompile E cfg ([], w1) (Next out)"
  using assms by (simp add: compileAndRun_def onCompile_Complete)

lemma compileAndRun_Error:
  assumes "compile E cfg w = ([Error e], w1)"
  shows "compileAndRun E cfg w = ([], w1\<lparr>unhandled := unhandled w1 @ [e]\<rparr>)"
  using assms by (simp add: compileAndRun_def)

subsection \<open>The sample runs\<close>

lemma resolved_simps:
  "compilerName (resolved c) = ''lang''"
  "filePath (resolved c) = toolchain_filePath c"
  "executionTimeout (resolved c) = toolchain_executionTimeout c"
  "compileCommand (resolved c) = toolchain_compileCommand c"
  "runCommand (resolved c) = toolchain_runCommand c"
  "variables (resolved c) = [(''file'', ''main.c''), (''exe'', ''out'')]"
  "inputs (resolved c) = [''5'', ''6'']"
  by (simp_all add: resolved_def optionsParser_def configureDefaultOptions_def
      sample_configs_def fresh_def)

lemma toolchain_simps:
  "toolchain_filePath sample_toolchain = Some ''/tmp/job''"
  "toolchain_executionTimeout sample_toolchain = Some (Num 5000)"
  "toolchain_compileCommand sample_toolchain = Some ''cc {file} -o out''"
  "toolchain_runCommand sample_toolchain = Some ''./{exe}''"
  "toolchain_filePath interpreted_toolchain = Some ''/tmp/job''"
  "toolchain_executionTimeout interpreted_toolchain = Some (Num 5000)"
  "toolchain_compileCommand interpreted_toolchain = None"
  "toolchain_runCommand interpreted_toolchain = Some ''./{exe}''"
  "toolchain_filePath no_run_toolchain = Some ''/tmp/job''"
  "toolchain_executionTimeout no_run_toolchain = Some (Num 5000)"
  "toolchain_compileCommand no_run_toolchain = Some ''cc {file} -o out''"
  "toolchain_runCommand no_run_toolchain = None"
  by (simp_all add: sample_toolchain_def interpreted_toolchain_def no_run_toolchain_def)

lemma env_of_simps:
  "getCompiler (env_of c b) name = Loaded c"
  "process (env_of c b) n proc = b"
  by (simp_all add: env_of_def)

lemma sample_command:
  "configureCommand (env_of c b) (resolved c') ''./{exe}'' = ''./out''"
  by (simp add: configureCommand_def env_of_def resolved_simps spec_buildCommand_def
      putVariables_def)

lemma compile_sample:
  "compile (env_of sample_toolchain syntax_error) (resolved sample_toolchain) idle =
     ([Next \<lparr>returnCode = Some (Num 1), data = Some ''main.c:1: syntax error'',
              took = Some (Num 120)\<rparr>, Complete],
      \<lparr>spawned = [\<lparr>command = ''./out'', currentDirectory = Some ''/tmp/job'',
                    timeoutOption = Some (Num 5000), written = [''cc {file} -o out'']\<rparr>],
       unhandled = []\<rparr>)"
proof -
  let ?E = "env_of sample_toolchain syntax_error" and ?cfg = "resolved sample_toolchain"
  have "run ?E ?cfg [''cc {file} -o out''] idle =
     ([Next \<lparr>returnCode = Some (Num 1), data = Some ''main.c:1: syntax error'',
              took = Some (Num 120)\<rparr>, Complete],
      \<lparr>spawned = [\<lparr>command = ''./out'', currentDirectory = Some ''/tmp/job'',
                    timeoutOption = Some (Num 5000), written = [''cc {file} -o out'']\<rparr>],
       unhandled = []\<rparr>)"
    using run_with_command [of ?cfg "''./{exe}''" ?E idle "[''cc {file} -o out'']"
        "[Output ''main.c:1: '', ErrorOutput ''syntax error'']" "Some (Num 1)" "(0, 120000000)"]
    by (simp add: resolved_simps toolchain_simps env_of_simps sample_command syntax_error_def
        idle_def took_of_def)
  then show ?thesis
    using compile_with_command [of ?cfg "''cc {file} -o out''" ?E idle]
    by (simp add: resolved_simps toolchain_simps)
qed

lemma run_no_run_command:
  "run (env_of no_run_toolchain b) (resolved no_run_toolchain) ins idle =
     ([Error (CompilationError ''runCommand not found.'')],
      \<lparr>spawned = [\<lparr>command = [], currentDirectory = Some ''/tmp/job'',
                    timeoutOption = Some (Num 5000), written = ins\<rparr>],
       unhandled = []\<rparr>)"
  using run_without_command [of "resolved no_run_toolchain" "env_of no_run_toolchain b" ins idle]
  by (simp add: resolved_simps toolchain_simps idle_def)

lemma compile_no_run_command:
  "compile (env_of no_run_toolchain b) (resolved no_run_toolchain) idle =
     ([Error (CompilationError ''runCommand not found.'')],
      \<lparr>spawned = [\<lparr>command = [], currentDirectory = Some ''/tmp/job'',
                    timeoutOption = Some (Num 5000), written = [''cc {file} -o out'']\<rparr>],
       unhandled = []\<rparr>)"
  using compile_with_command [of "resolved no_run_toolchain" "''cc {file} -o out''"
      "env_of no_run_toolchain b" idle]
  by (simp add: resolved_simps toolchain_simps run_no_run_command)

subsection \<open>The compile phase\<close>

lemma run_spawns:
  "\<exists>c. snd (run E cfg ins w) =
     w\<lparr>spawned := spawned w @
        [\<lparr>command = c, currentDirectory = filePath cfg,
          timeoutOption = executionTimeout cfg, written = ins\<rparr>]\<rparr>"
  unfolding run_def Let_def snd_conv by (rule exI) (rule refl)

text \<open>
  Whenever there is a compile command, the compile phase starts one process and hands it
  the compile command as its only line of input.
\<close>

lemma compile_writes_compileCommand:
  assumes "compileCommand cfg = Some cc" and "cc \<noteq> []"
  shows "\<exists>c. spawned (snd (compile E cfg w)) =
           spawned w @ [\<lparr>command = c, currentDirectory = filePath cfg,
                         timeoutOption = executionTimeout cfg, written = [cc]\<rparr>]"
proof -
  from run_spawns [of E cfg "[cc]" w] obtain c where
    "snd (run E cfg [cc] w) =
       w\<lparr>spawned := spawned w @
          [\<lparr>command = c, currentDirectory = filePath cfg,
            timeoutOption = executionTimeout cfg, written = [cc]\<rparr>]\<rparr>" ..
  then show ?thesis
    using compile_with_command [OF assms, of E w] by simp
qed

text \<open>
  C1 asks that the compile phase build its command from the \<^verbatim>\<open>compileCommand\<close> template
  and start it with no input. In the code \<^verbatim>\<open>compile()\<close> calls \<^verbatim>\<open>this.run(compileCommand)\<close>,
  and the parameters of \<^verbatim>\<open>run\<close> are input lines: for the sample descriptor (compile command
  \<^verbatim>\<open>cc {file} -o out\<close>, run command \<^verbatim>\<open>./{exe}\<close>) the process started in the compile phase is
  \<^verbatim>\<open>./out\<close>, built from the run command, and the unsubstituted compile command is written to
  its input. The command that the template engine makes of the compile command,
  \<^verbatim>\<open>cc main.c -o out\<close>, is never started.
\<close>

theorem compile_phase_starts_runCommand:
  "spawned (snd (compile (env_of sample_toolchain syntax_error) (resolved sample_toolchain) idle))
     = [\<lparr>command = ''./out'', currentDirectory = Some ''/tmp/job'',
          timeoutOption = Some (Num 5000), written = [''cc {file} -o out'']\<rparr>] \<and>
   configureCommand (env_of sample_toolchain syntax_error) (resolved sample_toolchain)
       ''cc {file} -o out'' = ''cc main.c -o out''"
proof -
  have "configureCommand (env_of sample_toolchain syntax_error) (resolved sample_toolchain)
       ''cc {file} -o out'' = ''cc main.c -o out''"
    by (simp add: configureCommand_def env_of_def resolved_simps spec_buildCommand_def
        putVariables_def)
  then show ?thesis by (simp add: compile_sample)
qed

subsection \<open>Running without a run command\<close>

text \<open>
  C3 asks that the process-running step, given an empty command, fail at once and start
  nothing. \<^verbatim>\<open>run\<close> sends the error \<^verbatim>\<open>runCommand not found.\<close> and goes on: for the sample
  descriptor without a run command it constructs the \<^verbatim>\<open>ProcessWrapper\<close> with the empty
  command and writes the two input lines to it.
\<close>

theorem run_starts_empty_command:
  "run (env_of no_run_toolchain slow_success) (resolved no_run_toolchain) [''5'', ''6''] idle =
     ([Error (CompilationError ''runCommand not found.'')],
      \<lparr>spawned = [\<lparr>command = [], currentDirectory = Some ''/tmp/job'',
                    timeoutOption = Some (Num 5000), written = [''5'', ''6'']\<rparr>],
       unhandled = []\<rparr>)"
  by (rule run_no_run_command)

subsection \<open>Elapsed time\<close>

text \<open>The reported time is the elapsed time exactly when less than a second has passed.\<close>

lemma took_of_elapsed: "took_of t = Num (elapsed_ms t) \<longleftrightarrow> fst t = 0"
  by (simp add: took_of_def elapsed_ms_def)

text \<open>
  C4 asks that \<^verbatim>\<open>took\<close> be the whole elapsed time in milliseconds, seconds included. The
  code divides the nanosecond component of \<^verbatim>\<open>process.hrtime(started)\<close> by a million and
  drops the seconds: a process that ends after 2.5 s, where the reading is
  \<open>(2, 500000000)\<close>, is reported with \<^verbatim>\<open>took\<close> 500, and the elapsed time is 2500 ms.
\<close>

theorem took_drops_seconds:
  "run (env_of interpreted_toolchain slow_success) (resolved interpreted_toolchain)
       [''5'', ''6''] idle =
     ([Next \<lparr>returnCode = Some (Num 0), data = Some ''42'', took = Some (Num 500)\<rparr>, Complete],
      \<lparr>spawned = [\<lparr>command = ''./out'', currentDirectory = Some ''/tmp/job'',
                    timeoutOption = Some (Num 5000), written = [''5'', ''6'']\<rparr>],
       unhandled = []\<rparr>) \<and>
   elapsed_ms (2, 500000000) = 2500"
  using run_with_command [of "resolved interpreted_toolchain" "''./{exe}''"
      "env_of interpreted_toolchain slow_success" idle "[''5'', ''6'']"
      "[Output ''42'']" "Some (Num 0)" "(2, 500000000)"]
  by (simp add: resolved_simps toolchain_simps env_of_simps sample_command slow_success_def
      idle_def took_of_def elapsed_ms_def)

subsection \<open>The dispatch after the compile phase\<close>

lemma dispatch_not_Guard: "dispatch out cfg \<noteq> Guard"
  by (simp add: dispatch_def SUCCESS_CODE_def)

lemma onCompile_no_guard_error:
  assumes "Error (CompilationError ''Failed to compile.'') \<notin> set (fst st)"
  shows "Error (CompilationError ''Failed to compile.'') \<notin> set (fst (onCompile E cfg st s))"
proof (cases st)
  case (Pair sent w)
  show ?thesis
  proof (cases s)
    case (Next out)
    show ?thesis
    proof (cases "dispatch out cfg")
      case RunPhase
      have "Error (CompilationError ''Failed to compile.'')
              \<notin> set (concat (map forward (fst (run E cfg (inputs cfg) w))))"
        using forward_errors run_errors by fastforce
      with assms Pair Next RunPhase show ?thesis by (simp add: split_beta)
    next
      case MissingRunCommand
      with assms Pair Next show ?thesis by simp
    next
      case Passthrough
      with assms Pair Next show ?thesis by simp
    next
      case Guard
      with dispatch_not_Guard show ?thesis by blast
    qed
  next
    case (Error e)
    with assms Pair show ?thesis by simp
  next
    case Complete
    with assms Pair show ?thesis by simp
  qed
qed

lemma foldl_onCompile_no_guard_error:
  "Error (CompilationError ''Failed to compile.'') \<notin> set (fst st) \<Longrightarrow>
   Error (CompilationError ''Failed to compile.'') \<notin> set (fst (foldl (onCompile E cfg) st ss))"
  by (induction ss arbitrary: st) (auto simp: onCompile_no_guard_error)

lemma compileAndRun_no_guard_error:
  "Error (CompilationError ''Failed to compile.'') \<notin> set (fst (compileAndRun E cfg w))"
  unfolding compileAndRun_def split_beta Let_def
  by (rule foldl_onCompile_no_guard_error) simp

text \<open>
  For a result that the compile phase delivers, the callback of \<^verbatim>\<open>compileAndRun\<close> does
  exactly one of three things: it subscribes to the run phase when the return code is the
  success code and the run command is set, it sends the missing-run-command error when the
  run command is unset, it passes the compile result on when the return code is not the
  success code and the run command is set. The guard branch is never taken.
\<close>

lemma dispatch_cases:
  "dispatch compileOutput cfg \<noteq> Guard \<and>
   (dispatch compileOutput cfg = RunPhase \<longleftrightarrow>
      returnCode compileOutput = Some SUCCESS_CODE \<and> truthy_string (runCommand cfg)) \<and>
   (dispatch compileOutput cfg = MissingRunCommand \<longleftrightarrow> \<not> truthy_string (runCommand cfg)) \<and>
   (dispatch compileOutput cfg = Passthrough \<longleftrightarrow>
      returnCode compileOutput \<noteq> Some SUCCESS_CODE \<and> truthy_string (runCommand cfg))"
  by (simp add: dispatch_def SUCCESS_CODE_def)

lemma onCompile_Next:
  "onCompile E cfg (sent, w) (Next compileOutput) =
     (if returnCode compileOutput = Some SUCCESS_CODE \<and> truthy_string (runCommand cfg)
      then (sent @ concat (map forward (fst (run E cfg (inputs cfg) w))),
            snd (run E cfg (inputs cfg) w))
      else if \<not> truthy_string (runCommand cfg)
      then (sent @ [Error (CompilationError ''runCommand not found.'')], w)
      else (sent @ [Next compileOutput, Complete], w))"
  by (simp add: dispatch_def SUCCESS_CODE_def split_beta)

text \<open>
  C8 asks that for every outcome of the compile phase exactly one of the three branches
  fire, the missing-run-command error whenever the run command is unset, and that the
  guard branch be unreachable. The guard branch is unreachable, and one branch fires for
  every result the compile phase delivers (the lemmas above). But the branches stand in
  the \<^verbatim>\<open>next\<close> callback of the subscription to \<^verbatim>\<open>compile()\<close>, which is not called when the
  compile phase ends in an error. For the sample descriptor without a run command the
  outcome of the compile phase is the error \<^verbatim>\<open>runCommand not found.\<close>, and \<^verbatim>\<open>compileAndRun\<close>
  sends its observer nothing: the run command is unset and none of the three branches has
  fired.
\<close>

theorem no_branch_after_compile_error:
  "runCommand (resolved no_run_toolchain) = None \<and>
   compile (env_of no_run_toolchain syntax_error) (resolved no_run_toolchain) idle =
     ([Error (CompilationError ''runCommand not found.'')],
      \<lparr>spawned = [\<lparr>command = [], currentDirectory = Some ''/tmp/job'',
                    timeoutOption = Some (Num 5000), written = [''cc {file} -o out'']\<rparr>],
       unhandled = []\<rparr>) \<and>
   compileAndRun (env_of no_run_toolchain syntax_error) (resolved no_run_toolchain) idle =
     ([],
      \<lparr>spawned = [\<lparr>command = [], currentDirectory = Some ''/tmp/job'',
                    timeoutOption = Some (Num 5000), written = [''cc {file} -o out'']\<rparr>],
       unhandled = [CompilationError ''runCommand not found.'']\<rparr>)"
  using compileAndRun_Error [OF compile_no_run_command [of syntax_error]]
  by (simp add: compile_no_run_command resolved_simps toolchain_simps)

subsection \<open>\<^verbatim>\<open>execute\<close>\<close>

lemma execute_Loaded:
  assumes "getCompiler E (compilerName cfg) = Loaded c"
  shows "execute E cfg w =
           (subscriber (fst (compileAndRun E (optionsParser c (configureDefaultOptions cfg)) w)),
            optionsParser c (configureDefaultOptions cfg),
            snd (compileAndRun E (optionsParser c (configureDefaultOptions cfg)) w))"
  using assms by (simp add: execute_def Let_def configureDefaultOptions_def split_beta)

text \<open>
  C6. When the toolchain has a run command and the compile phase delivers a result whose
  return code is not the success code, \<^verbatim>\<open>execute()\<close> delivers that same result followed by
  completion, and leaves the world as the compile phase left it: no process is started
  for a run phase.
\<close>

theorem compile_failure_passthrough:
  assumes "getCompiler E (compilerName cfg) = Loaded compiler"
    and "truthy_string (toolchain_runCommand compiler)"
    and "compile E (optionsParser compiler (configureDefaultOptions cfg)) w
           = ([Next compileOutput, Complete], w1)"
    and "returnCode compileOutput \<noteq> Some SUCCESS_CODE"
  shows "execute E cfg w =
           ([Next compileOutput, Complete], optionsParser compiler (configureDefaultOptions cfg), w1)"
proof -
  let ?cfg = "optionsParser compiler (configureDefaultOptions cfg)"
  have rc: "truthy_string (runCommand ?cfg)"
    using assms(2) by (simp add: optionsParser_def)
  have "dispatch compileOutput ?cfg = Passthrough"
    using rc assms(4) by (simp add: dispatch_def SUCCESS_CODE_def)
  then have "compileAndRun E ?cfg w = ([Next compileOutput, Complete], w1)"
    using compileAndRun_Next [OF assms(3)] by simp
  then show ?thesis
    using execute_Loaded [OF assms(1), of w] by simp
qed

theorem compile_failure_passthrough_witness:
  "getCompiler (env_of sample_toolchain syntax_error) (compilerName sample_configs)
     = Loaded sample_toolchain \<and>
   truthy_string (toolchain_runCommand sample_toolchain) \<and>
   compile (env_of sample_toolchain syntax_error)
       (optionsParser sample_toolchain (configureDefaultOptions sample_configs)) idle =
     ([Next \<lparr>returnCode = Some (Num 1), data = Some ''main.c:1: syntax error'',
              took = Some (Num 120)\<rparr>, Complete],
      \<lparr>spawned = [\<lparr>command = ''./out'', currentDirectory = Some ''/tmp/job'',
                    timeoutOption = Some (Num 5000), written = [''cc {file} -o out'']\<rparr>],
       unhandled = []\<rparr>) \<and>
   returnCode \<lparr>returnCode = Some (Num 1), data = Some ''main.c:1: syntax error'',
              took = Some (Num 120)\<rparr> \<noteq> Some SUCCESS_CODE \<and>
   execute (env_of sample_toolchain syntax_error) sample_configs idle =
     ([Next \<lparr>returnCode = Some (Num 1), data = Some ''main.c:1: syntax error'',
              took = Some (Num 120)\<rparr>, Complete],
      resolved sample_toolchain,
      \<lparr>spawned = [\<lparr>command = ''./out'', currentDirectory = Some ''/tmp/job'',
                    timeoutOption = Some (Num 5000), written = [''cc {file} -o out'']\<rparr>],
       unhandled = []\<rparr>)"
proof -
  have h1: "getCompiler (env_of sample_toolchain syntax_error) (compilerName sample_configs)
     = Loaded sample_toolchain"
    by (simp add: env_of_simps)
  have h2: "truthy_string (toolchain_runCommand sample_toolchain)"
    by (simp add: toolchain_simps)
  have h3: "compile (env_of sample_toolchain syntax_error)
              (optionsParser sample_toolchain (configureDefaultOptions sample_configs)) idle =
     ([Next \<lparr>returnCode = Some (Num 1), data = Some ''main.c:1: syntax error'',
              took = Some (Num 120)\<rparr>, Complete],
      \<lparr>spawned = [\<lparr>command = ''./out'', currentDirectory = Some ''/tmp/job'',
                    timeoutOption = Some (Num 5000), written = [''cc {file} -o out'']\<rparr>],
       unhandled = []\<rparr>)"
    using compile_sample by (simp add: resolved_def)
  have h4: "returnCode \<lparr>returnCode = Some (Num 1), data = Some ''main.c:1: syntax error'',
              took = Some (Num 120)\<rparr> \<noteq> Some SUCCESS_CODE"
    by (simp add: SUCCESS_CODE_def)
  show ?thesis
    using h1 h2 h3 h4 compile_failure_passthrough [OF h1 h2 h3 h4]
    by (simp add: resolved_def)
qed

text \<open>
  Without a run command, \<^verbatim>\<open>execute()\<close> reports the missing run command when there is no
  compile command either. When there is a compile command, the error arises inside the
  compile phase, the subscription of \<^verbatim>\<open>compileAndRun\<close> to \<^verbatim>\<open>compile()\<close> has no error callback,
  and the observer of \<^verbatim>\<open>execute()\<close> receives nothing.
\<close>

lemma execute_missing_runCommand_interpreted:
  assumes "getCompiler E (compilerName cfg) = Loaded c"
    and "\<not> truthy_string (toolchain_compileCommand c)"
    and "\<not> truthy_string (toolchain_runCommand c)"
  shows "execute E cfg w =
           ([Error (CompilationError ''runCommand not found.'')],
            optionsParser c (configureDefaultOptions cfg), w)"
proof -
  let ?cfg = "optionsParser c (configureDefaultOptions cfg)"
  have cc: "\<not> truthy_string (compileCommand ?cfg)" and rc: "\<not> truthy_string (runCommand ?cfg)"
    using assms(2,3) by (simp_all add: optionsParser_def)
  have "dispatch out ?cfg = MissingRunCommand" for out
    using rc by (simp add: dispatch_def)
  then have "compileAndRun E ?cfg w = ([Error (CompilationError ''runCommand not found.'')], w)"
    using compileAndRun_Next [OF compile_without_command [OF cc, of E w]] by simp
  then show ?thesis
    using execute_Loaded [OF assms(1), of w] by simp
qed

lemma execute_missing_runCommand_compiled:
  assumes "getCompiler E (compilerName cfg) = Loaded c"
    and "truthy_string (toolchain_compileCommand c)"
    and "\<not> truthy_string (toolchain_runCommand c)"
  shows "fst (execute E cfg w) = []"
    and "unhandled (snd (snd (execute E cfg w)))
           = unhandled w @ [CompilationError ''runCommand not found.'']"
proof -
  let ?cfg = "optionsParser c (configureDefaultOptions cfg)"
  from assms(2) obtain cc where cc: "compileCommand ?cfg = Some cc" "cc \<noteq> []"
    by (cases "toolchain_compileCommand c") (auto simp: optionsParser_def)
  have rc: "\<not> truthy_string (runCommand ?cfg)"
    using assms(3) by (simp add: optionsParser_def)
  let ?w1 = "snd (run E ?cfg [cc] w)"
  have "compile E ?cfg w = ([Error (CompilationError ''runCommand not found.'')], ?w1)"
    using compile_with_command [OF cc, of E w] run_without_command [OF rc, of E "[cc]" w]
    by simp
  from compileAndRun_Error [OF this]
  have car: "compileAndRun E ?cfg w =
          ([], ?w1\<lparr>unhandled := unhandled ?w1 @ [CompilationError ''runCommand not found.'']\<rparr>)" .
  have "unhandled ?w1 = unhandled w"
    using run_without_command [OF rc, of E "[cc]" w] by simp
  with car execute_Loaded [OF assms(1), of w]
  show "fst (execute E cfg w) = []"
    and "unhandled (snd (snd (execute E cfg w)))
           = unhandled w @ [CompilationError ''runCommand not found.'']"
    by simp_all
qed

text \<open>
  C2 asks that a failure of the process-running step in either phase reach the caller as
  the one error of \<^verbatim>\<open>execute()\<close>. For the sample descriptor without a run command the
  process-running step of the compile phase fails, \<^verbatim>\<open>compile()\<close> passes the error on, and
  \<^verbatim>\<open>compileAndRun\<close> sends its observer nothing: the error ends among the unhandled ones.
\<close>

theorem compile_error_not_forwarded:
  "fst (compile (env_of no_run_toolchain slow_success) (resolved no_run_toolchain) idle) =
     [Error (CompilationError ''runCommand not found.'')] \<and>
   fst (compileAndRun (env_of no_run_toolchain slow_success) (resolved no_run_toolchain) idle)
     = [] \<and>
   unhandled (snd (compileAndRun (env_of no_run_toolchain slow_success)
       (resolved no_run_toolchain) idle)) = [CompilationError ''runCommand not found.'']"
  using compileAndRun_Error [OF compile_no_run_command [of slow_success]]
  by (simp add: compile_no_run_command)

text \<open>
  C7 asks that \<^verbatim>\<open>execute()\<close> end with the missing-run-command failure whenever the run
  command is unset after resolution. For the sample descriptor and the toolchain with a
  compile command and no run command, \<^verbatim>\<open>execute()\<close> delivers no signal at all; a process
  with the empty command has been started and given the compile command as input.
\<close>

theorem execute_silent_without_runCommand:
  "execute (env_of no_run_toolchain slow_success) sample_configs idle =
     ([], resolved no_run_toolchain,
      \<lparr>spawned = [\<lparr>command = [], currentDirectory = Some ''/tmp/job'',
                    timeoutOption = Some (Num 5000), written = [''cc {file} -o out'']\<rparr>],
       unhandled = [CompilationError ''runCommand not found.'']\<rparr>)"
  using compileAndRun_Error [OF compile_no_run_command [of slow_success]]
  by (simp add: execute_def Let_def env_of_simps resolved_def)

end
